theory Spec2Isabelle
  imports Complex_Main "HOL-Library.AList"
begin

section \<open>Python values shared by the modules\<close>

text \<open>
  Scores, confidences, landmark coordinates and clock readings (\<^verbatim>\<open>time.time()\<close>) are
  Python floats; they are modelled as \<^typ>\<open>real\<close>. Python ints are \<^typ>\<open>int\<close>.
  A Python \<^verbatim>\<open>dict\<close> keeps insertion order and is iterated in it, so the dictionaries
  that are iterated are association lists.
\<close>

datatype py_error = ZeroDivisionError

text \<open>\<^verbatim>\<open>int(x)\<close> and \<^verbatim>\<open>astype(int)\<close> on a float: truncation towards zero.\<close>

definition py_int :: "real \<Rightarrow> int" where
  "py_int x = (if 0 \<le> x then \<lfloor>x\<rfloor> else \<lceil>x\<rceil>)"

text \<open>\<^verbatim>\<open>xs[:n]\<close>: a negative \<open>n\<close> counts from the end of the list.\<close>

definition py_slice_to :: "'a list \<Rightarrow> int \<Rightarrow> 'a list" where
  "py_slice_to xs n = (if 0 \<le> n then take (nat n) xs else take (nat (int (length xs) + n)) xs)"

text \<open>\<^verbatim>\<open>d.get(k, default)\<close> on an insertion-ordered dictionary.\<close>

definition dict_get :: "('k \<times> 'v) list \<Rightarrow> 'k \<Rightarrow> 'v \<Rightarrow> 'v" where
  "dict_get d k dflt = (case map_of d k of None \<Rightarrow> dflt | Some v \<Rightarrow> v)"

section \<open>core/recognizer.py\<close>

text \<open>
  The SFace model (\<^verbatim>\<open>cv2.FaceRecognizerSF\<close>) is an external collaborator: \<open>feature\<close> is
  the embedding of an image (aligned with the detection when one is given, resized
  otherwise; \<open>None\<close> when the call raises, which \<^verbatim>\<open>_generate_embedding\<close> catches), and
  \<open>match\<close> is the cosine similarity of two embeddings.
\<close>

record ('img, 'fd, 'emb) sface =
  feature :: "'img \<Rightarrow> 'fd option \<Rightarrow> 'emb option"
  match :: "'emb \<Rightarrow> 'emb \<Rightarrow> real"

type_synonym info = "(string \<times> string) list"

record ('id, 'img, 'fd, 'emb) recognizer =
  recognizer :: "('img, 'fd, 'emb) sface option"
  embeddings :: "('id \<times> 'emb list) list"
  student_map :: "('id \<times> info) list"

definition MIN_CONFIDENCE :: real where "MIN_CONFIDENCE = 0.40"

definition generate_embedding ::
  "('id, 'img, 'fd, 'emb) recognizer \<Rightarrow> 'img \<Rightarrow> 'fd option \<Rightarrow> 'emb option" where
  "generate_embedding r img face_data =
     (case recognizer r of None \<Rightarrow> None | Some sf \<Rightarrow> feature sf img face_data)"

text \<open>The inner loop of \<^verbatim>\<open>_compute_all_scores\<close>: the best score starts at 0.0.\<close>

definition best_score_for_student :: "('emb \<Rightarrow> 'emb \<Rightarrow> real) \<Rightarrow> 'emb \<Rightarrow> 'emb list \<Rightarrow> real" where
  "best_score_for_student m target_emb emb_list =
     fold (\<lambda>stored_emb best. let score = m target_emb stored_emb
                               in if score > best then score else best) emb_list 0"

text \<open>
  \<^verbatim>\<open>scores.sort(key=lambda x: x[1], reverse=True)\<close>: Python's sort is stable, also with
  \<^verbatim>\<open>reverse=True\<close> (equal keys keep their order), which is a stable ascending sort on the
  negated key.
\<close>

definition sort_desc :: "('id \<times> real \<times> info) list \<Rightarrow> ('id \<times> real \<times> info) list" where
  "sort_desc scores = sort_key (\<lambda>x. - fst (snd x)) scores"

text \<open>
  The scores in enrollment order (before the sort), and \<^verbatim>\<open>_compute_all_scores\<close>. The
  callers have checked that the model is loaded; it is passed as \<open>sf\<close>.
\<close>

definition student_scores ::
  "('img, 'fd, 'emb) sface \<Rightarrow> ('id, 'img, 'fd, 'emb) recognizer \<Rightarrow> 'emb \<Rightarrow> ('id \<times> real \<times> info) list" where
  "student_scores sf r target_emb =
     map (\<lambda>(s_id, emb_list).
            (s_id, best_score_for_student (match sf) target_emb emb_list,
             dict_get (student_map r) s_id [])) (embeddings r)"

definition compute_all_scores ::
  "('img, 'fd, 'emb) sface \<Rightarrow> ('id, 'img, 'fd, 'emb) recognizer \<Rightarrow> 'emb option \<Rightarrow> ('id \<times> real \<times> info) list" where
  "compute_all_scores sf r target_emb =
     (case target_emb of None \<Rightarrow> [] | Some t \<Rightarrow> sort_desc (student_scores sf r t))"


definition get_top_matches ::
  "('id, 'img, 'fd, 'emb) recognizer \<Rightarrow> 'img \<Rightarrow> 'fd option \<Rightarrow> int \<Rightarrow> ('id \<times> real \<times> info) list" where
  "get_top_matches r img face_data top_n =
     (case recognizer r of
        None \<Rightarrow> []
      | Some sf \<Rightarrow>
          (case generate_embedding r img face_data of
             None \<Rightarrow> []
           | Some target_emb \<Rightarrow>
               filter (\<lambda>(s_id, score, info). score \<ge> MIN_CONFIDENCE)
                 (py_slice_to (compute_all_scores sf r (Some target_emb)) top_n)))"

section \<open>core/attendance_manager.py\<close>

text \<open>
  A student id is whatever the caller passes; \<^verbatim>\<open>should_mark_attendance\<close> tests its
  truthiness, so the Python values that can stand there are kept apart.
\<close>

datatype pyval = PNone | PStr string | PInt int

fun truthy :: "pyval \<Rightarrow> bool" where
  "truthy PNone = False"
| "truthy (PStr s) = (s \<noteq> [])"
| "truthy (PInt i) = (i \<noteq> 0)"

text \<open>
  The messages are f-strings around a number; each is a constructor holding the number:
  \<open>Already_marked n\<close> is \<^verbatim>\<open>"Already marked (wait {n}s)"\<close> (the decision engine),
  \<open>Already_Marked_Wait n\<close> is \<^verbatim>\<open>"Already Marked (Wait {n}s)"\<close> (the marking), and
  \<open>Medium_confidence c\<close> is \<^verbatim>\<open>"Medium confidence ({c:.0%}) - verification optional"\<close>.
\<close>

datatype message =
    Unknown_person
  | Already_marked int
  | High_confidence_auto_marking
  | Medium_confidence real
  | Already_Marked_Wait int
  | Database_Error
  | Marked_Present

record decision =
  action :: string
  status :: string
  requires_verification :: bool
  message :: message
  can_mark :: bool

text \<open>One entry of \<^verbatim>\<open>today_log\<close>; the confidence is kept as the number that is formatted.\<close>

record attendance_record =
  rec_id :: pyval
  rec_name :: string
  rec_time :: string
  rec_status :: string
  rec_confidence :: real
  rec_marked_by :: string

text \<open>\<open>db\<close> is whether \<^verbatim>\<open>self.db\<close> holds a database (it is \<^verbatim>\<open>None\<close> after an ImportError).\<close>

record attendance_manager =
  cooldown_seconds :: real
  last_marked :: "pyval \<rightharpoonup> real"
  today_log :: "attendance_record list"
  db :: bool

definition AM_HIGH_CONFIDENCE :: real where "AM_HIGH_CONFIDENCE = 0.75"
definition AM_LOW_CONFIDENCE :: real where "AM_LOW_CONFIDENCE = 0.50"

text \<open>\<^verbatim>\<open>self.last_marked.get(student_id, 0)\<close>\<close>

definition last_time_of :: "attendance_manager \<Rightarrow> pyval \<Rightarrow> real" where
  "last_time_of am student_id = (case last_marked am student_id of None \<Rightarrow> 0 | Some t \<Rightarrow> t)"

definition initial_result :: decision where
  "initial_result = \<lparr>action = ''UNKNOWN'', status = ''NOT_RECOGNIZED'', requires_verification = True,
                      message = Unknown_person, can_mark = True\<rparr>"

text \<open>
  \<open>now\<close> is the reading of \<^verbatim>\<open>time.time()\<close> inside the call. The cooldown branch is
  entered, and returns, only under \<^verbatim>\<open>if student_id:\<close>; every other path falls through to
  the confidence bands.
\<close>

definition should_mark_attendance :: "attendance_manager \<Rightarrow> real \<Rightarrow> real \<Rightarrow> pyval \<Rightarrow> decision" where
  "should_mark_attendance am now confidence student_id =
     (let result = initial_result in
      if truthy student_id \<and> now - last_time_of am student_id < cooldown_seconds am then
        (let time_left = py_int (cooldown_seconds am - (now - last_time_of am student_id))
         in result\<lparr>can_mark := False, message := Already_marked time_left, action := ''COOLDOWN''\<rparr>)
      else if confidence \<ge> AM_HIGH_CONFIDENCE then
        result\<lparr>action := ''AUTO_MARK'', status := ''RECOGNIZED'', requires_verification := False,
               message := High_confidence_auto_marking\<rparr>
      else if confidence \<ge> AM_LOW_CONFIDENCE then
        result\<lparr>action := ''MAYBE'', status := ''MAYBE'', requires_verification := True,
               message := Medium_confidence confidence\<rparr>
      else
        result\<lparr>action := ''UNKNOWN'', status := ''NOT_RECOGNIZED'', requires_verification := True,
               message := Unknown_person\<rparr>)"

text \<open>
  What one call of \<^verbatim>\<open>mark_attendance\<close> reads from outside: the clock, the formatted time
  and date, and whether \<^verbatim>\<open>Database.mark_attendance\<close> returns True (it returns False when
  the insert raises).
\<close>

record mark_env =
  now :: real
  timestamp_str :: string
  date_str :: string
  db_success :: bool

definition mark_attendance ::
  "attendance_manager \<Rightarrow> pyval \<Rightarrow> string \<Rightarrow> real \<Rightarrow> string \<Rightarrow> mark_env
     \<Rightarrow> attendance_manager \<times> bool \<times> message" where
  "mark_attendance am student_id name confidence marked_by env =
     (let last_time = last_time_of am student_id in
      if now env - last_time < cooldown_seconds am then
        (am, False, Already_Marked_Wait (py_int (cooldown_seconds am - (now env - last_time))))
      else if db am \<and> \<not> db_success env then
        (am, False, Database_Error)
      else
        (let record = \<lparr>rec_id = student_id, rec_name = name, rec_time = timestamp_str env,
                         rec_status = ''Present'', rec_confidence = confidence,
                         rec_marked_by = marked_by\<rparr>
         in (am\<lparr>today_log := today_log am @ [record],
                 last_marked := (last_marked am)(student_id \<mapsto> now env)\<rparr>,
             True, Marked_Present)))"

text \<open>A sequence of calls on one manager, each with what it reads from outside.\<close>

record mark_call =
  call_student_id :: pyval
  call_name :: string
  call_confidence :: real
  call_marked_by :: string
  call_env :: mark_env

definition mark_call :: "attendance_manager \<Rightarrow> mark_call \<Rightarrow> attendance_manager \<times> bool \<times> message" where
  "mark_call am c =
     mark_attendance am (call_student_id c) (call_name c) (call_confidence c) (call_marked_by c) (call_env c)"

fun mark_all :: "attendance_manager \<Rightarrow> mark_call list \<Rightarrow> bool list" where
  "mark_all am [] = []"
| "mark_all am (c # cs) = (case mark_call am c of (am', ok, msg) \<Rightarrow> ok # mark_all am' cs)"

section \<open>core/frame_tracker.py\<close>

type_synonym bbox = "int \<times> int \<times> int \<times> int"

text \<open>
  A row of the detector's output: the box \<^verbatim>\<open>det[0:4]\<close>, the five landmarks
  \<^verbatim>\<open>det[4:14].reshape((5, 2))\<close> in YuNet's order, and the detector's score.
\<close>

record landmarks =
  right_eye :: "real \<times> real"
  left_eye :: "real \<times> real"
  nose :: "real \<times> real"
  right_mouth :: "real \<times> real"
  left_mouth :: "real \<times> real"

record detection =
  det_box :: "real \<times> real \<times> real \<times> real"
  det_landmarks :: landmarks
  det_score :: real

text \<open>\<^verbatim>\<open>tuple(det[0:4].astype(int))\<close>\<close>

definition det_bbox :: "detection \<Rightarrow> bbox" where
  "det_bbox det = (case det_box det of (x, y, w, h) \<Rightarrow> (py_int x, py_int y, py_int w, py_int h))"

text \<open>\<^verbatim>\<open>a / b\<close> on ints: a float, or ZeroDivisionError.\<close>

definition py_truediv :: "int \<Rightarrow> int \<Rightarrow> py_error + real" where
  "py_truediv a b = (if b = 0 then Inl ZeroDivisionError else Inr (real_of_int a / real_of_int b))"

definition compute_iou :: "bbox \<Rightarrow> bbox \<Rightarrow> py_error + real" where
  "compute_iou box1 box2 =
     (case box1 of (x1, y1, w1, h1) \<Rightarrow> case box2 of (x2, y2, w2, h2) \<Rightarrow>
        let box1_x2 = x1 + w1; box1_y2 = y1 + h1;
            box2_x2 = x2 + w2; box2_y2 = y2 + h2;
            inter_x1 = max x1 x2;
            inter_y1 = max y1 y2;
            inter_x2 = min box1_x2 box2_x2;
            inter_y2 = min box1_y2 box2_y2
        in if inter_x2 \<le> inter_x1 \<or> inter_y2 \<le> inter_y1 then Inr 0
           else let inter_area = (inter_x2 - inter_x1) * (inter_y2 - inter_y1);
                    box1_area = w1 * h1;
                    box2_area = w2 * h2;
                    union_area = box1_area + box2_area - inter_area
                in if union_area \<le> 0 then Inr 0
                   else py_truediv inter_area union_area)"

text \<open>
  The value \<^verbatim>\<open>_run_detection\<close> reads from \<^verbatim>\<open>_compute_iou\<close>. The call never raises
  (lemma \<open>compute_iou_never_raises\<close> below), so the error branch is never taken.
\<close>

definition iou_of :: "bbox \<Rightarrow> bbox \<Rightarrow> real" where
  "iou_of box1 box2 = (case compute_iou box1 box2 of Inr v \<Rightarrow> v | Inl e \<Rightarrow> 0)"

datatype tracker_obj = KCF | Template

text \<open>What \<^verbatim>\<open>self.tracker.update(frame)\<close> does on a frame: it returns (success, bbox), or raises.\<close>

datatype update_result = Returned bool bbox | Raised

type_synonym recognition = "string option \<times> string \<times> real \<times> info"

text \<open>
  \<^verbatim>\<open>TrackedFace\<close>. The field \<^verbatim>\<open>embedding\<close> is never written after the constructor and is
  left out. Track ids and the failure counter start at 0 and are only ever incremented,
  so they are naturals.
\<close>

record tracked_face =
  bbox :: bbox
  face_data :: "detection option"
  face_id :: nat
  tracker :: "tracker_obj option"
  recognition_result :: "recognition option"
  last_detected_frame :: int
  tracking_failures :: nat

text \<open>
  What one frame gives the tracker from outside: the detector's faces, which tracker
  \<^verbatim>\<open>init_tracker\<close> builds on a box, what each track's tracker answers to \<^verbatim>\<open>update\<close>, and
  what the recognizer answers on the frame with a detection (aligned) or on the crop
  around a box (\<open>None\<close> when the crop is empty and recognition is skipped).
\<close>

record frame_env =
  detect :: "detection list"
  new_tracker :: "bbox \<Rightarrow> tracker_obj"
  tracker_result :: "nat \<Rightarrow> update_result"
  match_aligned :: "detection \<Rightarrow> recognition"
  match_crop :: "bbox \<Rightarrow> recognition option"

record frame_tracker =
  detection_interval :: int
  recognition_interval :: int
  max_tracking_failures :: int
  frame_count :: int
  tracked_faces :: "(nat \<times> tracked_face) list"
  next_face_id :: nat

definition TrackedFace :: "bbox \<Rightarrow> detection \<Rightarrow> nat \<Rightarrow> tracked_face" where
  "TrackedFace b det fid =
     \<lparr>bbox = b, face_data = Some det, face_id = fid, tracker = None, recognition_result = None,
      last_detected_frame = 0, tracking_failures = 0\<rparr>"

definition init_tracker :: "frame_env \<Rightarrow> tracked_face \<Rightarrow> tracked_face" where
  "init_tracker env t = t\<lparr>tracker := Some (new_tracker env (bbox t))\<rparr>"

definition update_tracker :: "tracked_face \<Rightarrow> update_result \<Rightarrow> tracked_face \<times> bool" where
  "update_tracker t res =
     (case tracker t of
        None \<Rightarrow> (t, False)
      | Some tr \<Rightarrow>
          (case res of
             Returned success b \<Rightarrow>
               if success then (t\<lparr>bbox := b, tracking_failures := 0\<rparr>, True)
               else (t\<lparr>tracking_failures := tracking_failures t + 1\<rparr>, False)
           | Raised \<Rightarrow> (t\<lparr>tracking_failures := tracking_failures t + 1\<rparr>, False)))"

text \<open>
  The inner loop of \<^verbatim>\<open>_run_detection\<close> over \<^verbatim>\<open>enumerate(detected_faces)\<close>, for one track:
  the state is (best_iou, best_idx), started at (0.0, -1).
\<close>

fun best_detection :: "bbox \<Rightarrow> nat set \<Rightarrow> (nat \<times> detection) list \<Rightarrow> real \<times> int \<Rightarrow> real \<times> int" where
  "best_detection tb used [] best = best"
| "best_detection tb used ((idx, det) # rest) (best_iou, best_idx) =
     (if idx \<in> used then best_detection tb used rest (best_iou, best_idx)
      else let iou = iou_of tb (det_bbox det)
           in if iou > best_iou \<and> iou > 0.3 then best_detection tb used rest (iou, int idx)
              else best_detection tb used rest (best_iou, best_idx))"

text \<open>The first loop of \<^verbatim>\<open>_run_detection\<close>, over the tracked faces; the state is (new_tracked, used_detections).\<close>

fun match_existing ::
  "frame_env \<Rightarrow> int \<Rightarrow> detection list \<Rightarrow> (nat \<times> tracked_face) list
     \<Rightarrow> (nat \<times> tracked_face) list \<times> nat set \<Rightarrow> (nat \<times> tracked_face) list \<times> nat set" where
  "match_existing env fc dets [] acc = acc"
| "match_existing env fc dets ((fid, tracked) # rest) (new_tracked, used) =
     (case best_detection (bbox tracked) used (enumerate 0 dets) (0, - 1) of
        (best_iou, best_idx) \<Rightarrow>
          if best_idx \<ge> 0 then
            (let det = dets ! nat best_idx;
                 tracked' = init_tracker env
                   (tracked\<lparr>bbox := det_bbox det, face_data := Some det, last_detected_frame := fc\<rparr>)
             in match_existing env fc dets rest
                  (AList.update fid tracked' new_tracked, insert (nat best_idx) used))
          else match_existing env fc dets rest (new_tracked, used))"

text \<open>The second loop, over the detections; the state is (new_tracked, next_face_id).\<close>

fun add_new_faces ::
  "frame_env \<Rightarrow> int \<Rightarrow> nat set \<Rightarrow> (nat \<times> detection) list
     \<Rightarrow> (nat \<times> tracked_face) list \<times> nat \<Rightarrow> (nat \<times> tracked_face) list \<times> nat" where
  "add_new_faces env fc used [] acc = acc"
| "add_new_faces env fc used ((idx, det) # rest) (new_tracked, next_id) =
     (if idx \<notin> used then
        (let new_face = init_tracker env ((TrackedFace (det_bbox det) det next_id)\<lparr>last_detected_frame := fc\<rparr>)
         in add_new_faces env fc used rest (AList.update next_id new_face new_tracked, next_id + 1))
      else add_new_faces env fc used rest (new_tracked, next_id))"

definition run_detection :: "frame_env \<Rightarrow> frame_tracker \<Rightarrow> frame_tracker" where
  "run_detection env ft =
     (let detected_faces = detect env in
      case match_existing env (frame_count ft) detected_faces (tracked_faces ft) ([], {}) of
        (matched, used_detections) \<Rightarrow>
          (case add_new_faces env (frame_count ft) used_detections (enumerate 0 detected_faces)
                  (matched, next_face_id ft) of
             (new_tracked, next_id) \<Rightarrow> ft\<lparr>tracked_faces := new_tracked, next_face_id := next_id\<rparr>))"

text \<open>
  \<^verbatim>\<open>_run_tracking\<close>: every tracker is updated in place, the ids to remove are collected,
  then deleted.
\<close>

definition run_tracking :: "frame_env \<Rightarrow> frame_tracker \<Rightarrow> frame_tracker" where
  "run_tracking env ft =
     (let updated = map (\<lambda>(fid, tracked). (fid, update_tracker tracked (tracker_result env fid)))
                        (tracked_faces ft);
          faces_to_remove =
            map fst (filter (\<lambda>(fid, tracked', success).
                               \<not> success \<or> int (tracking_failures tracked') \<ge> max_tracking_failures ft)
                            updated)
      in ft\<lparr>tracked_faces := fold AList.delete faces_to_remove
                                  (map (\<lambda>(fid, tracked', success). (fid, tracked')) updated)\<rparr>)"

definition run_recognition :: "frame_env \<Rightarrow> bool \<Rightarrow> frame_tracker \<Rightarrow> frame_tracker" where
  "run_recognition env use_landmarks ft =
     ft\<lparr>tracked_faces :=
          map (\<lambda>(fid, tracked).
                 (fid,
                  case (if use_landmarks then face_data tracked else None) of
                    Some fd \<Rightarrow> tracked\<lparr>recognition_result := Some (match_aligned env fd)\<rparr>
                  | None \<Rightarrow>
                      (case match_crop env (bbox tracked) of
                         Some result \<Rightarrow> tracked\<lparr>recognition_result := Some result\<rparr>
                       | None \<Rightarrow> tracked)))
              (tracked_faces ft)\<rparr>"

record track_output =
  out_bbox :: bbox
  out_face_id :: nat
  out_is_tracked :: bool
  out_student_id :: "string option"
  out_status :: string
  out_confidence :: real
  out_name :: string

definition build_output :: "bool \<Rightarrow> (nat \<times> tracked_face) list \<Rightarrow> track_output list" where
  "build_output run_det faces =
     map (\<lambda>(fid, tracked).
            case recognition_result tracked of
              Some (student_id, st, confidence, best_info) \<Rightarrow>
                \<lparr>out_bbox = bbox tracked, out_face_id = fid, out_is_tracked = (\<not> run_det),
                 out_student_id = student_id, out_status = st, out_confidence = confidence,
                 out_name = dict_get best_info ''name'' ''Unknown''\<rparr>
            | None \<Rightarrow>
                \<lparr>out_bbox = bbox tracked, out_face_id = fid, out_is_tracked = (\<not> run_det),
                 out_student_id = None, out_status = ''UNKNOWN'', out_confidence = 0,
                 out_name = ''Processing...''\<rparr>) faces"

text \<open>
  \<^verbatim>\<open>FrameTracker.process_frame\<close>. Both \<^verbatim>\<open>%\<close> are evaluated before the branch; Python's
  \<^verbatim>\<open>%\<close> on ints is the floored remainder, as \<open>mod\<close> on \<^typ>\<open>int\<close>, and raises on a zero
  interval (the frame counter is already incremented then; the model returns the error
  alone).
\<close>

definition FrameTracker_process_frame ::
  "frame_env \<Rightarrow> frame_tracker \<Rightarrow> py_error + (frame_tracker \<times> track_output list)" where
  "FrameTracker_process_frame env ft0 =
     (let ft = ft0\<lparr>frame_count := frame_count ft0 + 1\<rparr> in
      if detection_interval ft = 0 \<or> recognition_interval ft = 0 then Inl ZeroDivisionError
      else
        let run_det = (frame_count ft mod detection_interval ft = 0 \<or> tracked_faces ft = []);
            run_rec = (frame_count ft mod recognition_interval ft = 0);
            ft' = (if run_det then run_recognition env True (run_detection env ft)
                   else let ft1 = run_tracking env ft
                        in if run_rec then run_recognition env False ft1 else ft1)
        in Inr (ft', build_output run_det (tracked_faces ft')))"

definition FrameTracker_reset :: "frame_tracker \<Rightarrow> frame_tracker" where
  "FrameTracker_reset ft = ft\<lparr>tracked_faces := [], frame_count := 0, next_face_id := 0\<rparr>"






section \<open>core/face_validator.py\<close>

text \<open>
  \<^verbatim>\<open>calculate_pose\<close>: \<^verbatim>\<open>dist_left_side\<close> is the horizontal distance from the nose to the
  right-eye landmark (index 0), \<^verbatim>\<open>dist_right_side\<close> the one from the nose to the left-eye
  landmark (index 1).
\<close>

definition calculate_pose :: "landmarks \<Rightarrow> real" where
  "calculate_pose lms =
     (let re = right_eye lms; le = left_eye lms; n = nose lms;
          dist_left_side = \<bar>fst n - fst re\<bar>;
          dist_right_side = \<bar>fst le - fst n\<bar>;
          total_span = dist_left_side + dist_right_side
      in if total_span = 0 then 0
         else (dist_right_side - dist_left_side) / total_span)"

text \<open>
  The ratio in the words of the specification, for comparison with \<open>calculate_pose\<close>:
  rightDist is the horizontal distance from the nose to the right-eye landmark, leftDist
  the one from the nose to the left-eye landmark.
\<close>

definition yaw_as_specified :: "landmarks \<Rightarrow> real" where
  "yaw_as_specified lms =
     (let rightDist = \<bar>fst (nose lms) - fst (right_eye lms)\<bar>;
          leftDist = \<bar>fst (nose lms) - fst (left_eye lms)\<bar>
      in (rightDist - leftDist) / (rightDist + leftDist))"



section \<open>core/capture_manager.py\<close>







text \<open>
  The pose gate of \<^verbatim>\<open>process_frame\<close>: \<^verbatim>\<open>passed_angle\<close>, and the status message the
  failing branch sets.
\<close>

definition pose_gate :: "string option \<Rightarrow> real \<Rightarrow> bool \<times> string option" where
  "pose_gate target yaw =
     (if target = Some ''front'' then
        (if - 0.2 < yaw \<and> yaw < 0.2 then (True, None) else (False, Some ''Look Straight''))
      else if target = Some ''left'' then
        (if yaw > 0.4 then (True, None) else (False, Some ''Turn MORE Left''))
      else if target = Some ''right'' then
        (if yaw < - 0.4 then (True, None) else (False, Some ''Turn MORE Right''))
      else (False, None))"












section \<open>Properties of the overlap ratio\<close>

lemma inter_le_area:
  fixes iw ih w h :: int
  assumes "0 < iw" "0 < ih" "iw \<le> w" "ih \<le> h"
  shows "iw * ih \<le> w * h"
  using assms by (intro mult_mono) auto

lemma compute_iou_overlap:
  fixes x1 y1 w1 h1 x2 y2 w2 h2 :: int
  assumes ov: "\<not> (min (x1 + w1) (x2 + w2) \<le> max x1 x2 \<or> min (y1 + h1) (y2 + h2) \<le> max y1 y2)"
  shows "0 < (min (x1 + w1) (x2 + w2) - max x1 x2) * (min (y1 + h1) (y2 + h2) - max y1 y2)"
    and "(min (x1 + w1) (x2 + w2) - max x1 x2) * (min (y1 + h1) (y2 + h2) - max y1 y2)
           \<le> w1 * h1 + w2 * h2
               - (min (x1 + w1) (x2 + w2) - max x1 x2) * (min (y1 + h1) (y2 + h2) - max y1 y2)"
proof -
  let ?iw = "min (x1 + w1) (x2 + w2) - max x1 x2"
  let ?ih = "min (y1 + h1) (y2 + h2) - max y1 y2"
  have iw: "0 < ?iw" and ih: "0 < ?ih" using ov by auto
  have "?iw \<le> w1" "?iw \<le> w2" "?ih \<le> h1" "?ih \<le> h2" by auto
  then have a1: "?iw * ?ih \<le> w1 * h1" and a2: "?iw * ?ih \<le> w2 * h2"
    using iw ih by (auto intro!: inter_le_area)
  show pos: "0 < ?iw * ?ih" using iw ih by simp
  show "?iw * ?ih \<le> w1 * h1 + w2 * h2 - ?iw * ?ih" using a1 a2 pos by linarith
qed

lemma compute_iou_value:
  "compute_iou (x1, y1, w1, h1) (x2, y2, w2, h2) =
     Inr (if min (x1 + w1) (x2 + w2) \<le> max x1 x2 \<or> min (y1 + h1) (y2 + h2) \<le> max y1 y2 then 0
          else real_of_int ((min (x1 + w1) (x2 + w2) - max x1 x2) * (min (y1 + h1) (y2 + h2) - max y1 y2))
               / real_of_int (w1 * h1 + w2 * h2
                   - (min (x1 + w1) (x2 + w2) - max x1 x2) * (min (y1 + h1) (y2 + h2) - max y1 y2)))"
proof (cases "min (x1 + w1) (x2 + w2) \<le> max x1 x2 \<or> min (y1 + h1) (y2 + h2) \<le> max y1 y2")
  case True
  then show ?thesis by (simp add: compute_iou_def Let_def)
next
  case False
  from compute_iou_overlap [OF False]
  have "0 < w1 * h1 + w2 * h2
          - (min (x1 + w1) (x2 + w2) - max x1 x2) * (min (y1 + h1) (y2 + h2) - max y1 y2)"
    by linarith
  then show ?thesis using False by (simp add: compute_iou_def Let_def py_truediv_def)
qed

lemma compute_iou_never_raises: "\<exists>v. compute_iou box1 box2 = Inr v"
  by (cases box1, cases box2) (auto simp: compute_iou_value)

lemma compute_iou_range:
  assumes "compute_iou box1 box2 = Inr v"
  shows "0 \<le> v \<and> v \<le> 1"
proof -
  obtain x1 y1 w1 h1 where b1: "box1 = (x1, y1, w1, h1)" by (cases box1) auto
  obtain x2 y2 w2 h2 where b2: "box2 = (x2, y2, w2, h2)" by (cases box2) auto
  show ?thesis
  proof (cases "min (x1 + w1) (x2 + w2) \<le> max x1 x2 \<or> min (y1 + h1) (y2 + h2) \<le> max y1 y2")
    case True
    then show ?thesis using assms b1 b2 by (simp add: compute_iou_value)
  next
    case False
    let ?i = "(min (x1 + w1) (x2 + w2) - max x1 x2) * (min (y1 + h1) (y2 + h2) - max y1 y2)"
    have i: "0 < ?i" "?i \<le> w1 * h1 + w2 * h2 - ?i"
      using compute_iou_overlap [OF False] by auto
    have v: "v = real_of_int ?i / real_of_int (w1 * h1 + w2 * h2 - ?i)"
      using assms b1 b2 False by (simp add: compute_iou_value)
    have "0 < real_of_int (w1 * h1 + w2 * h2 - ?i)" using i by linarith
    moreover have "real_of_int ?i \<le> real_of_int (w1 * h1 + w2 * h2 - ?i)" using i(2) by linarith
    moreover have "0 \<le> real_of_int ?i" using i(1) by linarith
    ultimately show ?thesis unfolding v by (simp add: divide_le_eq_1)
  qed
qed



section \<open>Properties of the pose estimate and the pose gate\<close>

text \<open>
  Claim C6, as stated, at a face whose nose is 2 away from the right-eye landmark and 8
  away from the left-eye landmark: the code's yaw is 3/5, the stated ratio is -3/5.
\<close>

theorem calculate_pose_sign_counterexample:
  "calculate_pose \<lparr>right_eye = (0, 0), left_eye = (10, 0), nose = (2, 5),
                    right_mouth = (1, 9), left_mouth = (9, 9)\<rparr> = 3 / 5 \<and>
   yaw_as_specified \<lparr>right_eye = (0, 0), left_eye = (10, 0), nose = (2, 5),
                      right_mouth = (1, 9), left_mouth = (9, 9)\<rparr> = - (3 / 5)"
  by (simp add: calculate_pose_def yaw_as_specified_def Let_def)

text \<open>
  Claim C6, amended. With rightDist the horizontal distance from the nose to the
  right-eye landmark and leftDist the one from the nose to the left-eye landmark, the
  estimated yaw is (leftDist - rightDist) / (rightDist + leftDist), and 0 when the sum is
  0: the opposite sign of the stated ratio. The pose gate passes exactly when
  |yaw| < 0.2 for target front, yaw > 0.4 for target left, yaw < -0.4 for target right.
\<close>

theorem calculate_pose_and_pose_gate:
  "calculate_pose lms =
     (if \<bar>fst (nose lms) - fst (right_eye lms)\<bar> + \<bar>fst (nose lms) - fst (left_eye lms)\<bar> = 0 then 0
      else (\<bar>fst (nose lms) - fst (left_eye lms)\<bar> - \<bar>fst (nose lms) - fst (right_eye lms)\<bar>)
           / (\<bar>fst (nose lms) - fst (right_eye lms)\<bar> + \<bar>fst (nose lms) - fst (left_eye lms)\<bar>)) \<and>
   calculate_pose lms = - yaw_as_specified lms \<and>
   fst (pose_gate (Some ''front'') yaw) = (\<bar>yaw\<bar> < 0.2) \<and>
   fst (pose_gate (Some ''left'') yaw) = (yaw > 0.4) \<and>
   fst (pose_gate (Some ''right'') yaw) = (yaw < - 0.4)"
proof -
  have flip: "\<bar>fst (left_eye lms) - fst (nose lms)\<bar> = \<bar>fst (nose lms) - fst (left_eye lms)\<bar>"
    by simp
  have pose: "calculate_pose lms =
     (if \<bar>fst (nose lms) - fst (right_eye lms)\<bar> + \<bar>fst (nose lms) - fst (left_eye lms)\<bar> = 0 then 0
      else (\<bar>fst (nose lms) - fst (left_eye lms)\<bar> - \<bar>fst (nose lms) - fst (right_eye lms)\<bar>)
           / (\<bar>fst (nose lms) - fst (right_eye lms)\<bar> + \<bar>fst (nose lms) - fst (left_eye lms)\<bar>))"
    unfolding calculate_pose_def Let_def flip by simp
  have neg: "calculate_pose lms = - yaw_as_specified lms"
  proof -
    have "(if a + b = 0 then 0 else (b - a) / (a + b)) = - ((a - b) / (a + b))" for a b :: real
    proof (cases "a + b = 0")
      case True
      then show ?thesis by simp
    next
      case False
      have "- ((a - b) / (a + b)) = (- (a - b)) / (a + b)" by (rule minus_divide_left)
      then show ?thesis using False by simp
    qed
    then show ?thesis unfolding pose yaw_as_specified_def Let_def .
  qed
  have front: "fst (pose_gate (Some ''front'') yaw) = (\<bar>yaw\<bar> < 0.2)"
    by (auto simp: pose_gate_def)
  have left: "fst (pose_gate (Some ''left'') yaw) = (yaw > 0.4)"
    by (simp add: pose_gate_def)
  have right: "fst (pose_gate (Some ''right'') yaw) = (yaw < - 0.4)"
    by (simp add: pose_gate_def)
  show ?thesis using pose neg front left right by blast
qed

section \<open>Properties of the attendance decision engine\<close>

lemma falsy_values: "\<not> truthy v \<longleftrightarrow> v = PNone \<or> v = PStr [] \<or> v = PInt 0"
  by (cases v) auto

lemma should_mark_attendance_cooldown_iff:
  "action (should_mark_attendance am t c sid) = ''COOLDOWN''
     \<longleftrightarrow> truthy sid \<and> t - last_time_of am sid < cooldown_seconds am"
  by (simp add: should_mark_attendance_def initial_result_def Let_def)

lemma should_mark_attendance_can_mark_iff:
  "can_mark (should_mark_attendance am t c sid)
     \<longleftrightarrow> \<not> (truthy sid \<and> t - last_time_of am sid < cooldown_seconds am)"
  by (simp add: should_mark_attendance_def initial_result_def Let_def)

text \<open>
  Claim C9. With a falsy student id (None, the empty string or 0) the cooldown check is
  skipped: for every confidence, clock reading and cooldown table the action is not
  COOLDOWN and can_mark stays true. The action is COOLDOWN, and can_mark false, exactly
  for a truthy id marked less than the cooldown ago.
\<close>

theorem should_mark_attendance_falsy_id_skips_cooldown:
  "(sid = PNone \<or> sid = PStr [] \<or> sid = PInt 0 \<longrightarrow>
      action (should_mark_attendance am t c sid) \<noteq> ''COOLDOWN'' \<and>
      can_mark (should_mark_attendance am t c sid)) \<and>
   (action (should_mark_attendance am t c sid) = ''COOLDOWN''
      \<longleftrightarrow> truthy sid \<and> t - last_time_of am sid < cooldown_seconds am) \<and>
   (can_mark (should_mark_attendance am t c sid)
      \<longleftrightarrow> \<not> (truthy sid \<and> t - last_time_of am sid < cooldown_seconds am))"
  using falsy_values [of sid]
        should_mark_attendance_cooldown_iff [of am t c sid]
        should_mark_attendance_can_mark_iff [of am t c sid]
  by blast

text \<open>
  The id 0 was marked at time 1000 and the call comes 10 seconds later with a cooldown of
  900: no cooldown for the falsy id 0, a cooldown for the id "S1" marked at the same time.
\<close>

theorem should_mark_attendance_falsy_id_skips_cooldown_witness:
  "action (should_mark_attendance
       \<lparr>cooldown_seconds = 900, last_marked = [PInt 0 \<mapsto> 1000, PStr ''S1'' \<mapsto> 1000],
        today_log = [], db = True\<rparr> 1010 0.9 (PInt 0)) \<noteq> ''COOLDOWN'' \<and>
   can_mark (should_mark_attendance
       \<lparr>cooldown_seconds = 900, last_marked = [PInt 0 \<mapsto> 1000, PStr ''S1'' \<mapsto> 1000],
        today_log = [], db = True\<rparr> 1010 0.9 (PInt 0)) \<and>
   action (should_mark_attendance
       \<lparr>cooldown_seconds = 900, last_marked = [PInt 0 \<mapsto> 1000, PStr ''S1'' \<mapsto> 1000],
        today_log = [], db = True\<rparr> 1010 0.9 (PInt 0)) = ''AUTO_MARK'' \<and>
   action (should_mark_attendance
       \<lparr>cooldown_seconds = 900, last_marked = [PInt 0 \<mapsto> 1000, PStr ''S1'' \<mapsto> 1000],
        today_log = [], db = True\<rparr> 1010 0.9 (PStr ''S1'')) = ''COOLDOWN''"
proof -
  let ?am = "\<lparr>cooldown_seconds = 900, last_marked = [PInt 0 \<mapsto> 1000, PStr ''S1'' \<mapsto> 1000],
              today_log = [], db = True\<rparr>"
  have a: "action (should_mark_attendance ?am 1010 0.9 (PInt 0)) \<noteq> ''COOLDOWN'' \<and>
           can_mark (should_mark_attendance ?am 1010 0.9 (PInt 0))"
    using should_mark_attendance_falsy_id_skips_cooldown [where sid = "PInt 0" and am = ?am and t = 1010 and c = "0.9"] by blast
  have b: "action (should_mark_attendance ?am 1010 0.9 (PInt 0)) = ''AUTO_MARK''"
    by (simp add: should_mark_attendance_def initial_result_def AM_HIGH_CONFIDENCE_def)
  have c: "action (should_mark_attendance ?am 1010 0.9 (PStr ''S1'')) = ''COOLDOWN''"
    by (simp add: should_mark_attendance_def initial_result_def last_time_of_def)
  show ?thesis using a b c by blast
qed

section \<open>Properties of marking\<close>

lemma mark_attendance_success_iff:
  "fst (snd (mark_attendance am sid name c mb env))
     \<longleftrightarrow> \<not> now env - last_time_of am sid < cooldown_seconds am \<and> (db am \<longrightarrow> db_success env)"
  by (auto simp: mark_attendance_def Let_def)

lemma mark_attendance_failure_keeps_state:
  "\<not> fst (snd (mark_attendance am sid name c mb env)) \<Longrightarrow> fst (mark_attendance am sid name c mb env) = am"
  by (auto simp: mark_attendance_def Let_def split: if_splits)

lemma mark_attendance_success_state:
  "fst (snd (mark_attendance am sid name c mb env)) \<Longrightarrow>
     last_marked (fst (mark_attendance am sid name c mb env)) = (last_marked am)(sid \<mapsto> now env) \<and>
     cooldown_seconds (fst (mark_attendance am sid name c mb env)) = cooldown_seconds am \<and>
     db (fst (mark_attendance am sid name c mb env)) = db am"
  by (auto simp: mark_attendance_def Let_def split: if_splits)



lemma mark_call_success_iff:
  "fst (snd (mark_call am c))
     \<longleftrightarrow> \<not> now (call_env c) - last_time_of am (call_student_id c) < cooldown_seconds am \<and>
         (db am \<longrightarrow> db_success (call_env c))"
  by (simp add: mark_call_def mark_attendance_success_iff)

lemma mark_call_failure_keeps_state:
  "\<not> fst (snd (mark_call am c)) \<Longrightarrow> fst (mark_call am c) = am"
  by (simp add: mark_call_def mark_attendance_failure_keeps_state)

lemma mark_call_success_state:
  "fst (snd (mark_call am c)) \<Longrightarrow>
     last_marked (fst (mark_call am c)) = (last_marked am)(call_student_id c \<mapsto> now (call_env c)) \<and>
     cooldown_seconds (fst (mark_call am c)) = cooldown_seconds am"
  by (simp add: mark_call_def mark_attendance_success_state)

lemma mark_call_cooldown_seconds: "cooldown_seconds (fst (mark_call am c)) = cooldown_seconds am"
  by (cases "fst (snd (mark_call am c))")
     (simp_all add: mark_call_success_state mark_call_failure_keeps_state)

lemma mark_all_Cons:
  "mark_all am (c # cs) = fst (snd (mark_call am c)) # mark_all (fst (mark_call am c)) cs"
  by (simp split: prod.splits)

lemma length_mark_all: "length (mark_all am cs) = length cs"
  by (induction cs arbitrary: am) (simp_all split: prod.splits)

text \<open>
  Once an identity has a cooldown entry \<open>t0\<close>, every later accepted mark of it lies at
  least a (positive) cooldown after \<open>t0\<close>.
\<close>

lemma accepted_after_entry:
  assumes "0 < cooldown_seconds am"
      and "last_marked am sid = Some t0"
      and "j < length cs"
      and "call_student_id (cs ! j) = sid"
      and "mark_all am cs ! j"
  shows "t0 + cooldown_seconds am \<le> now (call_env (cs ! j))"
  using assms
proof (induction cs arbitrary: am t0 j)
  case Nil
  then show ?case by simp
next
  case (Cons c cs)
  let ?am' = "fst (mark_call am c)"
  have cd: "cooldown_seconds ?am' = cooldown_seconds am" by (rule mark_call_cooldown_seconds)
  show ?case
  proof (cases j)
    case 0
    then have "fst (snd (mark_call am c))" and "call_student_id c = sid"
      using Cons.prems by (simp_all add: mark_all_Cons del: mark_all.simps)
    then show ?thesis
      using Cons.prems(2) 0 by (auto simp: mark_call_success_iff last_time_of_def)
  next
    case (Suc k)
    have k: "k < length cs" "call_student_id (cs ! k) = sid" "mark_all ?am' cs ! k"
      using Cons.prems Suc by (simp_all add: mark_all_Cons del: mark_all.simps)
    show ?thesis
    proof (cases "fst (snd (mark_call am c)) \<and> call_student_id c = sid")
      case True
      then have entry: "last_marked ?am' sid = Some (now (call_env c))"
        by (simp add: mark_call_success_state)
      have "t0 + cooldown_seconds am \<le> now (call_env c)"
        using True Cons.prems(2) by (auto simp: mark_call_success_iff last_time_of_def)
      moreover have "now (call_env c) + cooldown_seconds ?am' \<le> now (call_env (cs ! k))"
        using Cons.IH [OF _ entry k] Cons.prems(1) cd by simp
      ultimately show ?thesis using Cons.prems(1) cd Suc by simp
    next
      case False
      have entry: "last_marked ?am' sid = Some t0"
      proof (cases "fst (snd (mark_call am c))")
        case True
        with False have "call_student_id c \<noteq> sid" by simp
        then show ?thesis using True Cons.prems(2) by (simp add: mark_call_success_state)
      next
        case False
        then show ?thesis using Cons.prems(2) by (simp add: mark_call_failure_keeps_state)
      qed
      have "t0 + cooldown_seconds ?am' \<le> now (call_env (cs ! k))"
        using Cons.IH [OF _ entry k] Cons.prems(1) cd by simp
      then show ?thesis using cd Suc by simp
    qed
  qed
qed

lemma accepted_marks_apart:
  assumes "i < j" and "j < length cs"
      and "call_student_id (cs ! i) = call_student_id (cs ! j)"
      and "mark_all am cs ! i" and "mark_all am cs ! j"
  shows "\<not> \<bar>now (call_env (cs ! j)) - now (call_env (cs ! i))\<bar> < cooldown_seconds am"
proof (cases "0 < cooldown_seconds am")
  case False
  then show ?thesis by simp
next
  case pos: True
  from assms show ?thesis using pos
  proof (induction cs arbitrary: am i j)
    case Nil
    then show ?case by simp
  next
    case (Cons c cs)
    let ?am' = "fst (mark_call am c)"
    have cd: "cooldown_seconds ?am' = cooldown_seconds am" by (rule mark_call_cooldown_seconds)
    obtain k where j: "j = Suc k" using Cons.prems(1) by (cases j) auto
    have k: "k < length cs" "mark_all ?am' cs ! k"
      using Cons.prems j by (simp_all add: mark_all_Cons del: mark_all.simps)
    show ?case
    proof (cases i)
      case 0
      then have ok: "fst (snd (mark_call am c))" and sid: "call_student_id (cs ! k) = call_student_id c"
        using Cons.prems j by (simp_all add: mark_all_Cons del: mark_all.simps)
      have entry: "last_marked ?am' (call_student_id c) = Some (now (call_env c))"
        using ok by (simp add: mark_call_success_state)
      have "now (call_env c) + cooldown_seconds ?am' \<le> now (call_env (cs ! k))"
        using accepted_after_entry [OF _ entry k(1) sid k(2)] Cons.prems(6) cd by simp
      then show ?thesis using 0 j cd by simp
    next
      case (Suc i')
      have "\<not> \<bar>now (call_env (cs ! k)) - now (call_env (cs ! i'))\<bar> < cooldown_seconds ?am'"
        using Cons.IH [of i' k ?am'] Cons.prems Suc j cd by (simp add: mark_all_Cons del: mark_all.simps)
      then show ?thesis using Suc j cd by simp
    qed
  qed
qed

text \<open>
  Claim C2, as stated, with a cooldown longer than the clock reading: the identity has no
  prior record and the write succeeds, yet the first mark is refused, because the absent
  record is read as a mark at time 0.
\<close>

theorem first_mark_long_cooldown_counterexample:
  "last_marked \<lparr>cooldown_seconds = 2000000000, last_marked = Map.empty, today_log = [], db = True\<rparr>
     (PStr ''S1'') = None \<and>
   db_success \<lparr>now = 1790000000, timestamp_str = ''09:00:00'', date_str = ''2026-09-21'', db_success = True\<rparr> \<and>
   mark_attendance
     \<lparr>cooldown_seconds = 2000000000, last_marked = Map.empty, today_log = [], db = True\<rparr>
     (PStr ''S1'') ''Asha'' 0.9 ''face_recognition''
     \<lparr>now = 1790000000, timestamp_str = ''09:00:00'', date_str = ''2026-09-21'', db_success = True\<rparr>
   = (\<lparr>cooldown_seconds = 2000000000, last_marked = Map.empty, today_log = [], db = True\<rparr>,
      False, Already_Marked_Wait 210000000)"
  by (simp add: mark_attendance_def last_time_of_def py_int_def)

text \<open>
  Claim C2, amended. In every sequence of \<^verbatim>\<open>mark_attendance\<close> calls on one manager, no
  two calls for the same identity that both return success have clock readings less than
  cooldown_seconds apart; and the first mark for an identity without a prior record
  returns success whenever the database write succeeds (or there is no database) and the
  clock reading (seconds since the epoch) is at least cooldown_seconds.
\<close>

theorem cooldown_invariant_and_first_mark:
  "(i < j \<and> j < length cs \<and> call_student_id (cs ! i) = call_student_id (cs ! j) \<and>
      mark_all am cs ! i \<and> mark_all am cs ! j
      \<longrightarrow> \<not> \<bar>now (call_env (cs ! j)) - now (call_env (cs ! i))\<bar> < cooldown_seconds am) \<and>
   (last_marked am sid = None \<and> (db am \<longrightarrow> db_success env) \<and> cooldown_seconds am \<le> now env
      \<longrightarrow> fst (snd (mark_attendance am sid name c mb env)))"
proof -
  have first: "fst (snd (mark_attendance am sid name c mb env))"
    if "last_marked am sid = None" "db am \<longrightarrow> db_success env" "cooldown_seconds am \<le> now env"
    using that by (simp add: mark_attendance_success_iff last_time_of_def)
  show ?thesis using accepted_marks_apart [of i j cs am] first by blast
qed

text \<open>
  Three calls for "S1" with a cooldown of 900: accepted, refused 10 seconds later,
  accepted 900 seconds after the first.
\<close>

theorem cooldown_invariant_and_first_mark_witness:
  "mark_all \<lparr>cooldown_seconds = 900, last_marked = Map.empty, today_log = [], db = True\<rparr>
     [\<lparr>call_student_id = PStr ''S1'', call_name = ''Asha'', call_confidence = 0.9,
       call_marked_by = ''face_recognition'',
       call_env = \<lparr>now = 1790000000, timestamp_str = ''09:00:00'', date_str = ''2026-09-21'', db_success = True\<rparr>\<rparr>,
      \<lparr>call_student_id = PStr ''S1'', call_name = ''Asha'', call_confidence = 0.9,
       call_marked_by = ''face_recognition'',
       call_env = \<lparr>now = 1790000010, timestamp_str = ''09:00:10'', date_str = ''2026-09-21'', db_success = True\<rparr>\<rparr>,
      \<lparr>call_student_id = PStr ''S1'', call_name = ''Asha'', call_confidence = 0.9,
       call_marked_by = ''face_recognition'',
       call_env = \<lparr>now = 1790000900, timestamp_str = ''09:15:00'', date_str = ''2026-09-21'', db_success = True\<rparr>\<rparr>]
     = [True, False, True] \<and>
   \<not> \<bar>(1790000900 :: real) - 1790000000\<bar> < 900 \<and>
   fst (snd (mark_attendance \<lparr>cooldown_seconds = 900, last_marked = Map.empty, today_log = [], db = True\<rparr>
     (PStr ''S1'') ''Asha'' 0.9 ''face_recognition''
     \<lparr>now = 1790000000, timestamp_str = ''09:00:00'', date_str = ''2026-09-21'', db_success = True\<rparr>))"
proof -
  let ?am = "\<lparr>cooldown_seconds = 900, last_marked = Map.empty, today_log = [], db = True\<rparr>"
  let ?e0 = "\<lparr>now = 1790000000, timestamp_str = ''09:00:00'', date_str = ''2026-09-21'', db_success = True\<rparr>"
  let ?e1 = "\<lparr>now = 1790000010, timestamp_str = ''09:00:10'', date_str = ''2026-09-21'', db_success = True\<rparr>"
  let ?e2 = "\<lparr>now = 1790000900, timestamp_str = ''09:15:00'', date_str = ''2026-09-21'', db_success = True\<rparr>"
  let ?c0 = "\<lparr>call_student_id = PStr ''S1'', call_name = ''Asha'', call_confidence = 0.9,
               call_marked_by = ''face_recognition'', call_env = ?e0\<rparr>"
  let ?c1 = "\<lparr>call_student_id = PStr ''S1'', call_name = ''Asha'', call_confidence = 0.9,
               call_marked_by = ''face_recognition'', call_env = ?e1\<rparr>"
  let ?c2 = "\<lparr>call_student_id = PStr ''S1'', call_name = ''Asha'', call_confidence = 0.9,
               call_marked_by = ''face_recognition'', call_env = ?e2\<rparr>"
  have run: "mark_all ?am [?c0, ?c1, ?c2] = [True, False, True]"
    by (simp add: mark_call_def mark_attendance_def last_time_of_def)
  have pre: "(0::nat) < 2 \<and> 2 < length [?c0, ?c1, ?c2] \<and>
             call_student_id ([?c0, ?c1, ?c2] ! 0) = call_student_id ([?c0, ?c1, ?c2] ! 2) \<and>
             mark_all ?am [?c0, ?c1, ?c2] ! 0 \<and> mark_all ?am [?c0, ?c1, ?c2] ! 2"
    unfolding run by simp
  have first: "last_marked ?am (PStr ''S1'') = None \<and> (db ?am \<longrightarrow> db_success ?e0) \<and>
               cooldown_seconds ?am \<le> now ?e0"
    by simp
  note inst = cooldown_invariant_and_first_mark [where i = 0 and j = 2 and cs = "[?c0, ?c1, ?c2]"
      and am = ?am and sid = "PStr ''S1''" and env = ?e0 and name = "''Asha''" and c = "0.9"
      and mb = "''face_recognition''"]
  have apart: "\<not> \<bar>now (call_env ([?c0, ?c1, ?c2] ! 2)) - now (call_env ([?c0, ?c1, ?c2] ! 0))\<bar> < cooldown_seconds ?am"
    using inst pre by blast
  have ok: "fst (snd (mark_attendance ?am (PStr ''S1'') ''Asha'' 0.9 ''face_recognition'' ?e0))"
    using inst first by blast
  from apart have "\<not> \<bar>(1790000900 :: real) - 1790000000\<bar> < 900" by simp
  then show ?thesis using run ok by blast
qed

section \<open>Properties of the recognizer\<close>

lemma Max_insert2_real:
  fixes b c :: real
  assumes "finite A"
  shows "Max (insert b (insert c A)) = Max (insert (max b c) A)"
proof (cases "A = {}")
  case True
  then show ?thesis by (simp add: max.commute)
next
  case False
  then show ?thesis using assms by (simp add: max.assoc)
qed

lemma best_score_fold:
  fixes m :: "'e \<Rightarrow> 'e \<Rightarrow> real"
  shows "fold (\<lambda>stored_emb best. let score = m t stored_emb in if score > best then score else best) es b
     = Max (insert b (m t ` set es))"
proof (induction es arbitrary: b)
  case Nil
  show ?case by simp
next
  case (Cons e es)
  have step: "(if m t e > b then m t e else b) = max b (m t e)"
    by (simp add: max_def)
  have "Max (insert b (insert (m t e) (m t ` set es))) = Max (insert (max b (m t e)) (m t ` set es))"
    by (rule Max_insert2_real) simp
  then show ?case
    using Cons.IH [of "max b (m t e)"] by (simp add: Let_def step)
qed

lemma best_score_for_student_Max:
  "best_score_for_student m t es = Max (insert 0 (m t ` set es))"
  by (simp add: best_score_for_student_def best_score_fold)

text \<open>A positive best score is the largest similarity over a non-empty list of references.\<close>

lemma best_score_positive:
  assumes "0 < best_score_for_student m t es"
  shows "es \<noteq> [] \<and> best_score_for_student m t es = Max (m t ` set es)"
proof -
  have ne: "es \<noteq> []" using assms by (auto simp: best_score_for_student_def)
  then have fin: "finite (m t ` set es)" "m t ` set es \<noteq> {}" by simp_all
  have "Max (insert 0 (m t ` set es)) = max 0 (Max (m t ` set es))"
    using fin by (rule Max_insert)
  then show ?thesis using assms ne by (simp add: best_score_for_student_Max max_def split: if_splits)
qed

lemma student_scores_entry:
  assumes "x \<in> set (student_scores sf r t)"
  shows "\<exists>embs. (fst x, embs) \<in> set (embeddings r) \<and>
                fst (snd x) = best_score_for_student (match sf) t embs \<and>
                snd (snd x) = dict_get (student_map r) (fst x) []"
  using assms by (auto simp: student_scores_def)

lemma set_sort_desc: "set (sort_desc xs) = set xs"
  by (simp add: sort_desc_def)

lemma sorted_sort_desc: "sorted_wrt (\<lambda>x y. fst (snd y) \<le> fst (snd x)) (sort_desc xs)"
proof -
  have "sorted (map (\<lambda>x. - fst (snd x)) (sort_desc xs))"
    unfolding sort_desc_def by (rule sorted_sort_key)
  then show ?thesis by (simp add: sorted_map)
qed

lemma sort_desc_stable:
  "filter (\<lambda>y. fst (snd y) = k) (sort_desc xs) = filter (\<lambda>y. fst (snd y) = k) xs"
proof -
  have "filter (\<lambda>y. - fst (snd y) = - k) (sort_desc xs) = filter (\<lambda>y. - fst (snd y) = - k) xs"
    unfolding sort_desc_def by (rule sort_key_stable)
  then show ?thesis by simp
qed






lemma py_slice_to_take: "\<exists>m. py_slice_to xs n = take m xs"
  by (auto simp: py_slice_to_def)

lemma length_py_slice_to: "0 \<le> n \<Longrightarrow> int (length (py_slice_to xs n)) \<le> n"
  by (simp add: py_slice_to_def)

lemma filter_take_prefix: "\<exists>m. filter P (take n ys) = take m (filter P ys)"
proof (induction ys arbitrary: n)
  case Nil
  show ?case by simp
next
  case (Cons y ys)
  show ?case
  proof (cases n)
    case 0
    have "filter P (take 0 (y # ys)) = take 0 (filter P (y # ys))" by simp
    then show ?thesis using 0 by blast
  next
    case (Suc k)
    obtain m where m: "filter P (take k ys) = take m (filter P ys)" using Cons.IH by blast
    show ?thesis
    proof (cases "P y")
      case True
      have "filter P (take (Suc k) (y # ys)) = take (Suc m) (filter P (y # ys))"
        using True m by simp
      then show ?thesis using Suc by blast
    next
      case False
      have "filter P (take (Suc k) (y # ys)) = take m (filter P (y # ys))"
        using False m by simp
      then show ?thesis using Suc by blast
    qed
  qed
qed

lemma sorted_wrt_take_prefix: "sorted_wrt R xs \<Longrightarrow> sorted_wrt R (take m xs)"
proof (induction xs arbitrary: m)
  case Nil
  show ?case by simp
next
  case (Cons x xs)
  show ?case
  proof (cases m)
    case 0
    then show ?thesis by simp
  next
    case (Suc k)
    have "\<forall>y \<in> set (take k xs). R x y" using Cons.prems by (auto dest: in_set_takeD)
    then show ?thesis using Cons Suc by simp
  qed
qed

text \<open>The list \<^verbatim>\<open>get_top_matches\<close> returns when the model is loaded and the probe embeds.\<close>

lemma get_top_matches_unfold:
  assumes "recognizer r = Some sf" and "feature sf img fd = Some t"
  shows "get_top_matches r img fd n =
           filter (\<lambda>x. MIN_CONFIDENCE \<le> fst (snd x)) (py_slice_to (sort_desc (student_scores sf r t)) n)"
  using assms
  by (simp add: get_top_matches_def generate_embedding_def compute_all_scores_def case_prod_unfold)

lemma get_top_matches_empty:
  assumes "recognizer r = None \<or> (\<exists>sf. recognizer r = Some sf \<and> feature sf img fd = None)"
  shows "get_top_matches r img fd n = []"
  using assms by (auto simp: get_top_matches_def generate_embedding_def)

lemma get_top_matches_cases:
  obtains "get_top_matches r img fd n = []"
  | sf t where "recognizer r = Some sf" "feature sf img fd = Some t"
  by (cases "recognizer r"; cases "feature (the (recognizer r)) img fd")
     (auto simp: get_top_matches_empty)

lemma get_top_matches_sorted:
  "sorted_wrt (\<lambda>x y. fst (snd y) \<le> fst (snd x)) (get_top_matches r img fd n)"
proof (rule get_top_matches_cases [of r img fd n])
  assume "get_top_matches r img fd n = []"
  then show ?thesis by simp
next
  fix sf t assume a: "recognizer r = Some sf" "feature sf img fd = Some t"
  obtain m where m: "py_slice_to (sort_desc (student_scores sf r t)) n = take m (sort_desc (student_scores sf r t))"
    using py_slice_to_take by blast
  show ?thesis
    unfolding get_top_matches_unfold [OF a] m
    by (intro sorted_wrt_filter sorted_wrt_take_prefix sorted_sort_desc)
qed

lemma get_top_matches_length:
  assumes "0 \<le> n"
  shows "int (length (get_top_matches r img fd n)) \<le> n"
proof (rule get_top_matches_cases [of r img fd n])
  assume "get_top_matches r img fd n = []"
  then show ?thesis using assms by simp
next
  fix sf t assume a: "recognizer r = Some sf" "feature sf img fd = Some t"
  have "length (get_top_matches r img fd n) \<le> length (py_slice_to (sort_desc (student_scores sf r t)) n)"
    unfolding get_top_matches_unfold [OF a] by (rule length_filter_le)
  then show ?thesis using length_py_slice_to [OF assms, of "sort_desc (student_scores sf r t)"] by linarith
qed

lemma get_top_matches_floor:
  assumes "x \<in> set (get_top_matches r img fd n)"
  shows "0.40 \<le> fst (snd x)"
proof (rule get_top_matches_cases [of r img fd n])
  assume "get_top_matches r img fd n = []"
  then show ?thesis using assms by simp
next
  fix sf t assume a: "recognizer r = Some sf" "feature sf img fd = Some t"
  show ?thesis using assms unfolding get_top_matches_unfold [OF a] by (simp add: MIN_CONFIDENCE_def)
qed

lemma get_top_matches_entry:
  assumes "recognizer r = Some sf" and "feature sf img fd = Some t"
      and "x \<in> set (get_top_matches r img fd n)"
  shows "\<exists>embs. (fst x, embs) \<in> set (embeddings r) \<and> embs \<noteq> [] \<and>
                fst (snd x) = Max (match sf t ` set embs)"
proof -
  have floor: "0.40 \<le> fst (snd x)" using assms(3) by (rule get_top_matches_floor)
  have "x \<in> set (py_slice_to (sort_desc (student_scores sf r t)) n)"
    using assms(3) unfolding get_top_matches_unfold [OF assms(1,2)] by simp
  then have "x \<in> set (sort_desc (student_scores sf r t))"
    using py_slice_to_take [of "sort_desc (student_scores sf r t)" n]
    by (auto dest: in_set_takeD)
  then have mem: "x \<in> set (student_scores sf r t)"
    by (simp only: set_sort_desc)
  obtain embs where embs: "(fst x, embs) \<in> set (embeddings r)"
      "fst (snd x) = best_score_for_student (match sf) t embs"
    using student_scores_entry [OF mem] by auto
  have "0 < best_score_for_student (match sf) t embs" using floor embs(2) by simp
  from best_score_positive [OF this] embs show ?thesis by auto
qed

lemma get_top_matches_ties:
  assumes "recognizer r = Some sf" and "feature sf img fd = Some t"
  shows "\<exists>m. filter (\<lambda>x. fst (snd x) = k) (get_top_matches r img fd n)
               = take m (filter (\<lambda>x. fst (snd x) = k) (student_scores sf r t))"
proof (cases "MIN_CONFIDENCE \<le> k")
  case True
  obtain m where m: "py_slice_to (sort_desc (student_scores sf r t)) n = take m (sort_desc (student_scores sf r t))"
    using py_slice_to_take by blast
  have "filter (\<lambda>x. fst (snd x) = k) (get_top_matches r img fd n)
          = filter (\<lambda>x. fst (snd x) = k) (take m (sort_desc (student_scores sf r t)))"
    unfolding get_top_matches_unfold [OF assms] m using True by (simp add: conj_commute cong: conj_cong)
  moreover obtain m' where "filter (\<lambda>x. fst (snd x) = k) (take m (sort_desc (student_scores sf r t)))
          = take m' (filter (\<lambda>x. fst (snd x) = k) (sort_desc (student_scores sf r t)))"
    using filter_take_prefix by blast
  ultimately show ?thesis by (metis sort_desc_stable)
next
  case False
  have "filter (\<lambda>x. fst (snd x) = k) (get_top_matches r img fd n) = []"
    unfolding get_top_matches_unfold [OF assms] using False by (auto simp: filter_empty_conv)
  then have "filter (\<lambda>x. fst (snd x) = k) (get_top_matches r img fd n)
               = take 0 (filter (\<lambda>x. fst (snd x) = k) (student_scores sf r t))" by simp
  then show ?thesis by blast
qed

text \<open>
  Claim C8, as stated, at n = -1 with two identities enrolled, scoring 0.9 and 0.8:
  \<^verbatim>\<open>all_scores[:-1]\<close> drops the last entry only, so one candidate is returned and the
  length is not at most n.
\<close>

theorem get_top_matches_negative_n_counterexample:
  "get_top_matches
     \<lparr>recognizer = Some \<lparr>feature = (\<lambda>(i::nat) (f::unit option). Some i),
                          match = (\<lambda>(p::nat) (q::nat). if q = 1 then 0.9 else (0.8::real))\<rparr>,
        embeddings = [(''S1'', [1]), (''S2'', [2])], student_map = []\<rparr>
     0 None (- 1) = [(''S1'', 0.9, [])] \<and>
   \<not> int (length (get_top_matches
     \<lparr>recognizer = Some \<lparr>feature = (\<lambda>(i::nat) (f::unit option). Some i),
                          match = (\<lambda>(p::nat) (q::nat). if q = 1 then 0.9 else (0.8::real))\<rparr>,
        embeddings = [(''S1'', [1]), (''S2'', [2])], student_map = []\<rparr>
     0 None (- 1))) \<le> - 1"
proof -
  have "get_top_matches
     \<lparr>recognizer = Some \<lparr>feature = (\<lambda>(i::nat) (f::unit option). Some i),
                          match = (\<lambda>(p::nat) (q::nat). if q = 1 then 0.9 else (0.8::real))\<rparr>,
        embeddings = [(''S1'', [1]), (''S2'', [2])], student_map = []\<rparr>
     0 None (- 1) = [(''S1'', 0.9, [])]"
    by (simp add: get_top_matches_def generate_embedding_def compute_all_scores_def sort_desc_def
        student_scores_def best_score_for_student_def py_slice_to_def dict_get_def MIN_CONFIDENCE_def)
  then show ?thesis by simp
qed

text \<open>
  Claim C8, amended. For every probe and every n, \<^verbatim>\<open>get_top_matches\<close> returns (identity,
  score) entries sorted by score descending, containing only candidates with score >= 0.40,
  each score the maximum similarity over the identity's non-empty list of references, and
  the entries of equal score in enrollment order (they are a prefix of the enrolled
  identities of that score); for every n >= 0 the list has at most n entries.
\<close>

theorem get_top_matches_ranked:
  "sorted_wrt (\<lambda>x y. fst (snd y) \<le> fst (snd x)) (get_top_matches r img fd n) \<and>
   (0 \<le> n \<longrightarrow> int (length (get_top_matches r img fd n)) \<le> n) \<and>
   (\<forall>x \<in> set (get_top_matches r img fd n). 0.40 \<le> fst (snd x)) \<and>
   (recognizer r = Some sf \<and> feature sf img fd = Some t \<longrightarrow>
      (\<forall>x \<in> set (get_top_matches r img fd n).
         \<exists>embs. (fst x, embs) \<in> set (embeddings r) \<and> embs \<noteq> [] \<and>
                fst (snd x) = Max (match sf t ` set embs)) \<and>
      (\<exists>m. filter (\<lambda>x. fst (snd x) = k) (get_top_matches r img fd n)
               = take m (filter (\<lambda>x. fst (snd x) = k) (student_scores sf r t))))"
  using get_top_matches_sorted [of r img fd n]
        get_top_matches_length [of n r img fd]
        get_top_matches_floor [of _ r img fd n]
        get_top_matches_entry [of r sf img fd t _ n]
        get_top_matches_ties [of r sf img fd t k n]
  by blast

text \<open>
  Three identities: "S1" scores 0.3, "S2" (two references, 0.5 and 0.8) and "S3" score
  0.8. Asked for 3, the answer is "S2" then "S3".
\<close>

theorem get_top_matches_ranked_witness:
  "get_top_matches
     \<lparr>recognizer = Some \<lparr>feature = (\<lambda>(i::nat) (f::unit option). Some i),
                          match = (\<lambda>(p::nat) (q::nat). if q = 1 then 0.5 else if q = 2 then 0.8 else (0.3::real))\<rparr>,
        embeddings = [(''S1'', [3]), (''S2'', [1, 2]), (''S3'', [2])], student_map = []\<rparr>
     0 None 3 = [(''S2'', 0.8, []), (''S3'', 0.8, [])] \<and>
   int (length (get_top_matches
     \<lparr>recognizer = Some \<lparr>feature = (\<lambda>(i::nat) (f::unit option). Some i),
                          match = (\<lambda>(p::nat) (q::nat). if q = 1 then 0.5 else if q = 2 then 0.8 else (0.3::real))\<rparr>,
        embeddings = [(''S1'', [3]), (''S2'', [1, 2]), (''S3'', [2])], student_map = []\<rparr>
     0 None 3)) \<le> 3 \<and>
   get_top_matches
     \<lparr>recognizer = Some \<lparr>feature = (\<lambda>(i::nat) (f::unit option). Some i),
                          match = (\<lambda>(p::nat) (q::nat). if q = 1 then 0.5 else if q = 2 then 0.8 else (0.3::real))\<rparr>,
        embeddings = [(''S1'', [3]), (''S2'', [1, 2]), (''S3'', [2])], student_map = []\<rparr>
     0 None 1 = [(''S2'', 0.8, [])]"
proof -
  let ?sf = "\<lparr>feature = (\<lambda>(i::nat) (f::unit option). Some i),
              match = (\<lambda>(p::nat) (q::nat). if q = 1 then 0.5 else if q = 2 then 0.8 else (0.3::real))\<rparr>"
  let ?r = "\<lparr>recognizer = Some ?sf, embeddings = [(''S1'', [3]), (''S2'', [1, 2]), (''S3'', [2])],
             student_map = []\<rparr>"
  have a: "get_top_matches ?r 0 None 3 = [(''S2'', 0.8, []), (''S3'', 0.8, [])]"
    by (simp add: get_top_matches_def generate_embedding_def compute_all_scores_def sort_desc_def
        student_scores_def best_score_for_student_def py_slice_to_def dict_get_def MIN_CONFIDENCE_def)
  have b: "get_top_matches ?r 0 None 1 = [(''S2'', 0.8, [])]"
    by (simp add: get_top_matches_def generate_embedding_def compute_all_scores_def sort_desc_def
        student_scores_def best_score_for_student_def py_slice_to_def dict_get_def MIN_CONFIDENCE_def)
  have c: "int (length (get_top_matches ?r 0 None 3)) \<le> 3"
    using get_top_matches_ranked [where r = ?r and img = 0 and fd = None and n = 3] by simp
  show ?thesis using a b c by blast
qed

section \<open>Properties of the tracking-only pass\<close>

lemma update_tracker_counter:
  "tracker t = Some tr \<Longrightarrow>
     update_tracker t (Returned True b) = (t\<lparr>bbox := b, tracking_failures := 0\<rparr>, True) \<and>
     update_tracker t (Returned False b) = (t\<lparr>tracking_failures := tracking_failures t + 1\<rparr>, False) \<and>
     update_tracker t Raised = (t\<lparr>tracking_failures := tracking_failures t + 1\<rparr>, False)"
  by (simp add: update_tracker_def)

text \<open>
  Claim C3 at a track with no failure so far, on the second frame (a tracking-only pass,
  \<^verbatim>\<open>max_tracking_failures\<close> = 3): the update fails, the counter goes to 1, which is below
  3, and the track is removed all the same, since \<^verbatim>\<open>_run_tracking\<close> removes a face when
  \<^verbatim>\<open>not success or tracked.tracking_failures >= self.max_tracking_failures\<close>.
\<close>

theorem first_failed_update_evicts_track:
  "update_tracker
     \<lparr>bbox = (10, 10, 50, 50),
        face_data = Some \<lparr>det_box = (10, 10, 50, 50),
                    det_landmarks = \<lparr>right_eye = (25, 30), left_eye = (45, 30), nose = (35, 40),
                                      right_mouth = (27, 50), left_mouth = (43, 50)\<rparr>,
                    det_score = 0.9\<rparr>,
        face_id = 0, tracker = Some Template, recognition_result = None,
        last_detected_frame = 1, tracking_failures = 0\<rparr>
     (Returned False (10, 10, 50, 50))
   = (\<lparr>bbox = (10, 10, 50, 50),
        face_data = Some \<lparr>det_box = (10, 10, 50, 50),
                    det_landmarks = \<lparr>right_eye = (25, 30), left_eye = (45, 30), nose = (35, 40),
                                      right_mouth = (27, 50), left_mouth = (43, 50)\<rparr>,
                    det_score = 0.9\<rparr>,
        face_id = 0, tracker = Some Template, recognition_result = None,
        last_detected_frame = 1, tracking_failures = 0\<rparr>
        \<lparr>tracking_failures := 1\<rparr>, False) \<and>
   FrameTracker_process_frame
     \<lparr>detect = [], new_tracker = (\<lambda>b. Template),
      tracker_result = (\<lambda>fid. Returned False (10, 10, 50, 50)),
      match_aligned = (\<lambda>d. (None, ''UNKNOWN'', 0, [])),
      match_crop = (\<lambda>b. None)\<rparr>
     \<lparr>detection_interval = 5, recognition_interval = 15, max_tracking_failures = 3, frame_count = 1,
      tracked_faces = [(0, \<lparr>bbox = (10, 10, 50, 50),
        face_data = Some \<lparr>det_box = (10, 10, 50, 50),
                    det_landmarks = \<lparr>right_eye = (25, 30), left_eye = (45, 30), nose = (35, 40),
                                      right_mouth = (27, 50), left_mouth = (43, 50)\<rparr>,
                    det_score = 0.9\<rparr>,
        face_id = 0, tracker = Some Template, recognition_result = None,
        last_detected_frame = 1, tracking_failures = 0\<rparr>)],
      next_face_id = 1\<rparr>
   = Inr (\<lparr>detection_interval = 5, recognition_interval = 15, max_tracking_failures = 3, frame_count = 2,
           tracked_faces = [], next_face_id = 1\<rparr>, [])"
  by (simp add: FrameTracker_process_frame_def run_tracking_def update_tracker_def build_output_def
      AList.delete_eq)

section \<open>Properties of the capture session\<close>











section \<open>Properties of the detection pass\<close>

lemma iou_of_range: "0 \<le> iou_of b1 b2 \<and> iou_of b1 b2 \<le> 1"
proof -
  obtain v where v: "compute_iou b1 b2 = Inr v" using compute_iou_never_raises by blast
  then show ?thesis using compute_iou_range [OF v] by (simp add: iou_of_def)
qed



















end
